theory Spec2Isabelle
  imports Main "HOL-Library.Sublist"
begin

section \<open>JavaScript values and the static language tables\<close>

text \<open>
  The three language tables of \<^verbatim>\<open>docker-executor.ts\<close> are object literals that are
  indexed with an arbitrary string (\<^verbatim>\<open>LANGUAGE_IMAGES[language]\<close>). Such a lookup
  yields the table's own entry, or else a member inherited from \<^verbatim>\<open>Object.prototype\<close>, or
  else \<^verbatim>\<open>undefined\<close>. A looked-up value is therefore a string,
  \<^verbatim>\<open>undefined\<close>, a built-in function of \<^verbatim>\<open>Object.prototype\<close> or that prototype
  object itself.
\<close>

datatype jsval =
    Undefined
  | Str string
  | NativeFunction string
  | ObjectPrototype

text \<open>Truthiness, the operator \<^verbatim>\<open>||\<close>, and the conversion done by a template literal.\<close>

fun truthy :: "jsval \<Rightarrow> bool" where
  "truthy Undefined = False"
| "truthy (Str s) = (s \<noteq> [])"
| "truthy (NativeFunction f) = True"
| "truthy ObjectPrototype = True"

definition orElse :: "jsval \<Rightarrow> jsval \<Rightarrow> jsval" where
  "orElse a b = (if truthy a then a else b)"

fun toString :: "jsval \<Rightarrow> string" where
  "toString Undefined = ''undefined''"
| "toString (Str s) = s"
| "toString (NativeFunction f) = ''function '' @ f @ ''() { [native code] }''"
| "toString ObjectPrototype = ''[object Object]''"

text \<open>
  The function-valued members every object literal inherits, each with the name of the
  built-in it denotes; \<^verbatim>\<open>__proto__\<close> is an accessor that returns the prototype object.
\<close>

definition objectPrototypeMembers :: "(string \<times> string) list" where
  "objectPrototypeMembers =
    [(''constructor'', ''Object''),
     (''hasOwnProperty'', ''hasOwnProperty''),
     (''isPrototypeOf'', ''isPrototypeOf''),
     (''propertyIsEnumerable'', ''propertyIsEnumerable''),
     (''toLocaleString'', ''toLocaleString''),
     (''toString'', ''toString''),
     (''valueOf'', ''valueOf''),
     (''__defineGetter__'', ''__defineGetter__''),
     (''__defineSetter__'', ''__defineSetter__''),
     (''__lookupGetter__'', ''__lookupGetter__''),
     (''__lookupSetter__'', ''__lookupSetter__'')]"

definition getProperty :: "(string \<times> string) list \<Rightarrow> string \<Rightarrow> jsval" where
  "getProperty table key =
    (case map_of table key of
       Some s \<Rightarrow> Str s
     | None \<Rightarrow>
        (if key = ''__proto__'' then ObjectPrototype
         else (case map_of objectPrototypeMembers key of
                 Some f \<Rightarrow> NativeFunction f
               | None \<Rightarrow> Undefined)))"

definition TEMP_DIR :: string where
  "TEMP_DIR = ''/tmp/code-execution''"

definition DEFAULT_TIMEOUT :: int where
  "DEFAULT_TIMEOUT = 10000"

definition DEFAULT_MEMORY :: string where
  "DEFAULT_MEMORY = ''256m''"

definition LANGUAGE_IMAGES :: "(string \<times> string) list" where
  "LANGUAGE_IMAGES =
    [(''javascript'', ''node:18-alpine''),
     (''typescript'', ''node:18-alpine''),
     (''python'', ''python:3.10-alpine''),
     (''java'', ''openjdk:17-alpine''),
     (''go'', ''golang:1.19-alpine''),
     (''rust'', ''rust:1.67-alpine''),
     (''ruby'', ''ruby:3.2-alpine''),
     (''php'', ''php:8.2-alpine''),
     (''csharp'', ''mcr.microsoft.com/dotnet/sdk:7.0-alpine'')]"

definition LANGUAGE_EXTENSIONS :: "(string \<times> string) list" where
  "LANGUAGE_EXTENSIONS =
    [(''javascript'', ''js''),
     (''typescript'', ''ts''),
     (''python'', ''py''),
     (''java'', ''java''),
     (''go'', ''go''),
     (''rust'', ''rs''),
     (''ruby'', ''rb''),
     (''php'', ''php''),
     (''csharp'', ''cs'')]"

definition EXECUTION_COMMANDS :: "(string \<times> string) list" where
  "EXECUTION_COMMANDS =
    [(''javascript'', ''node''),
     (''typescript'', ''ts-node''),
     (''python'', ''python''),
     (''java'', ''java''),
     (''go'', ''go run''),
     (''rust'', ''rustc -o /tmp/output && /tmp/output''),
     (''ruby'', ''ruby''),
     (''php'', ''php''),
     (''csharp'', ''dotnet run'')]"

section \<open>Requests, results and the host the executor runs on\<close>

record ExecutionOptions =
  timeout :: "int option"
  memoryLimit :: "string option"
  networkDisabled :: "bool option"
  language :: string

text \<open>
  The \<^verbatim>\<open>code\<close> of a rejected \<^verbatim>\<open>exec\<close>: the exit status of the process, \<^verbatim>\<open>null\<close>
  when a signal ended it, or the name of a system error. \<^verbatim>\<open>exitCode\<close> is declared a
  number, but the failure branch stores \<^verbatim>\<open>error.code || 1\<close>, whatever
  \<^verbatim>\<open>error.code\<close> holds, so the field has the same type. \<^verbatim>\<open>memoryUsage\<close> is
  optional and never assigned.
\<close>

datatype codeval =
    Null
  | Num int
  | SysName string

definition codeOr :: "codeval \<Rightarrow> int \<Rightarrow> codeval" where
  "codeOr c d =
    (case c of
       Null \<Rightarrow> Num d
     | Num n \<Rightarrow> (if n \<noteq> 0 then Num n else Num d)
     | SysName s \<Rightarrow> (if s \<noteq> [] then SysName s else Num d))"

record ExecutionResult =
  stdout :: string
  stderr :: string
  exitCode :: codeval
  executionTime :: int
  memoryUsage :: "int option"

text \<open>
  The error a rejected \<^verbatim>\<open>execPromise\<close> carries: the runtime's
  \<^verbatim>\<open>message\<close>, \<^verbatim>\<open>code\<close>, \<^verbatim>\<open>killed\<close> and \<^verbatim>\<open>signal\<close>, and the output captured so
  far, which the promisified \<^verbatim>\<open>exec\<close> attaches.
\<close>

record ExecException =
  e_message :: string
  e_code :: codeval
  e_killed :: bool
  e_signal :: "string option"
  e_stdout :: string
  e_stderr :: string

datatype exec_outcome =
    Resolved string string
  | Rejected ExecException

text \<open>
  What the shell command does once it is launched, as far as \<^verbatim>\<open>exec\<close> can observe it:
  the chunks it writes to its two streams, each with the time in milliseconds after
  the launch at which it arrives; the time at which it ends by itself and its exit
  status then; how it ends when it is sent the kill signal (\<open>None\<close>: from the signal,
  \<open>Some c\<close>: by exiting with status \<open>c\<close>) and how long that takes. A process that never
  ends by itself is one whose \<open>exitsAt\<close> lies beyond every deadline. A launch can also
  fail: the shell cannot be spawned, with the name and the message of the system error
  and the time it took to find out.
\<close>

datatype chunk =
    Stdout string
  | Stderr string

record process =
  emits :: "(int \<times> chunk) list"
  exitsAt :: int
  status :: int
  onTerm :: "int option"
  dies :: int

datatype launch =
    SpawnFails string string int
  | Launched process

text \<open>
  What the host does when the module calls out: the identifier \<^verbatim>\<open>uuidv4()\<close> returns, the
  reading of \<^verbatim>\<open>Date.now()\<close> in front of the \<^verbatim>\<open>try\<close>, for each file-system call
  whether it succeeds (\<open>None\<close>) or rejects with an error of the given message, what
  launching a command line in a shell does, and how the runtime prints a number in an
  error message.
\<close>

record runtime =
  uuid :: string
  mkdir :: "string \<Rightarrow> string option"
  writeFile :: "string \<Rightarrow> string \<Rightarrow> string option"
  spawn :: "string \<Rightarrow> launch"
  rm :: "string \<Rightarrow> string option"
  startClock :: int
  inspect :: "int \<Rightarrow> string"

text \<open>
  The part of the host the module changes: the directories and files that exist, the
  command lines handed to the shell, and the lines written by \<^verbatim>\<open>console.error\<close>.
\<close>

record host =
  dirs :: "string set"
  files :: "string \<rightharpoonup> string"
  shell :: "string list"
  console :: "string list"

datatype fault = Fault string

text \<open>
  How the runtime builds the error of a command that did not end with status 0: the
  message is \<^verbatim>\<open>Command failed: \<close> followed by the command, a newline and the captured
  error stream. A process that ends by itself with status \<open>n\<close> gives \<open>code = n\<close>; one killed
  at the deadline gives \<open>code = null\<close>, \<open>killed = true\<close> and the kill signal.
\<close>

definition commandFailed ::
  "string \<Rightarrow> string \<Rightarrow> string \<Rightarrow> codeval \<Rightarrow> bool \<Rightarrow> string option \<Rightarrow> ExecException" where
  "commandFailed cmd out err c k sig =
    \<lparr>e_message = ''Command failed: '' @ cmd @ [CHR 0x0A] @ err,
     e_code = c, e_killed = k, e_signal = sig, e_stdout = out, e_stderr = err\<rparr>"

definition exitedWith :: "string \<Rightarrow> string \<Rightarrow> string \<Rightarrow> int \<Rightarrow> ExecException" where
  "exitedWith cmd out err n = commandFailed cmd out err (Num n) False None"

definition timedOut :: "string \<Rightarrow> string \<Rightarrow> string \<Rightarrow> ExecException" where
  "timedOut cmd out err = commandFailed cmd out err Null True (Some ''SIGTERM'')"

text \<open>
  The promisified \<^verbatim>\<open>exec\<close> of the runtime, called with a command and the option
  \<^verbatim>\<open>timeout\<close> only, so with the default \<^verbatim>\<open>maxBuffer\<close> of 1 MiB for each stream.
  It collects the chunks in the order they arrive; the first chunk that takes a stream
  over the limit is cut at the limit, the process is killed and the call will reject
  with the error of that stream.
\<close>

definition maxBuffer :: nat where
  "maxBuffer = 1024 * 1024"

fun capture ::
  "(int \<times> chunk) list \<Rightarrow> string \<Rightarrow> string \<Rightarrow> string \<times> string \<times> (string \<times> int) option" where
  "capture [] out err = (out, err, None)"
| "capture ((at, Stdout c) # cs) out err =
    (if length out + length c > maxBuffer
     then (out @ take (maxBuffer - length out) c, err, Some (''stdout'', at))
     else capture cs (out @ c) err)"
| "capture ((at, Stderr c) # cs) out err =
    (if length err + length c > maxBuffer
     then (out, err @ take (maxBuffer - length err) c, Some (''stderr'', at))
     else capture cs out (err @ c))"

definition receivedBy :: "process \<Rightarrow> int \<Rightarrow> (int \<times> chunk) list" where
  "receivedBy p T = filter (\<lambda>(at, c). at \<le> T) (emits p)"

text \<open>
  \<^verbatim>\<open>execPromise(command, { timeout })\<close>: the answer and the milliseconds it took. A
  negative timeout is refused before anything is launched. A timeout of 0 means no
  deadline. A process still running at the deadline is sent the kill signal and its
  streams are closed. The call resolves when the process ended with status 0 and no
  signal, and rejects otherwise.
\<close>

definition execPromise :: "runtime \<Rightarrow> string \<Rightarrow> int \<Rightarrow> exec_outcome \<times> int" where
  "execPromise rt cmd t =
    (if t < 0
     then (Rejected
             \<lparr>e_message = ''The value of '' @ [CHR 0x22] @ ''timeout'' @ [CHR 0x22]
                  @ '' is out of range. It must be an unsigned integer. Received ''
                  @ inspect rt t,
              e_code = SysName ''ERR_OUT_OF_RANGE'', e_killed = False, e_signal = None,
              e_stdout = [], e_stderr = []\<rparr>, 0)
     else
      (case spawn rt cmd of
         SpawnFails name msg ms \<Rightarrow>
           (Rejected
              \<lparr>e_message = msg, e_code = SysName name, e_killed = False, e_signal = None,
               e_stdout = [], e_stderr = []\<rparr>, ms)
       | Launched p \<Rightarrow>
          (let byItself = (t = 0 \<or> exitsAt p \<le> t);
               until = (if byItself then exitsAt p else t)
           in case capture (receivedBy p until) [] [] of
                (out, err, Some (stream, at)) \<Rightarrow>
                  (Rejected
                     \<lparr>e_message = stream @ '' maxBuffer length exceeded'',
                      e_code = SysName ''ERR_CHILD_PROCESS_STDIO_MAXBUFFER'',
                      e_killed = False, e_signal = None, e_stdout = out, e_stderr = err\<rparr>,
                   min (exitsAt p) (at + dies p))
              | (out, err, None) \<Rightarrow>
                  (if byItself
                   then ((if status p = 0 then Resolved out err
                          else Rejected (exitedWith cmd out err (status p))),
                         exitsAt p)
                   else ((case onTerm p of
                            None \<Rightarrow> Rejected (timedOut cmd out err)
                          | Some c \<Rightarrow>
                              (if c = 0 then Resolved out err
                               else Rejected (commandFailed cmd out err (Num c) True None))),
                         t + dies p)))))"



section \<open>DockerExecutor\<close>

text \<open>
  \<^verbatim>\<open>path.join\<close> and \<^verbatim>\<open>path.basename\<close> on the paths this module builds: the segments
  joined are an identifier and a file name, neither empty nor holding a separator.
\<close>

definition path_join :: "string \<Rightarrow> string \<Rightarrow> string" where
  "path_join a b = a @ ''/'' @ b"

definition basename :: "string \<Rightarrow> string" where
  "basename p =
    rev (takeWhile (\<lambda>c. c \<noteq> CHR ''/'') (dropWhile (\<lambda>c. c = CHR ''/'') (rev p)))"

definition or_string :: "string \<Rightarrow> string \<Rightarrow> string" where
  "or_string a b = (if a \<noteq> [] then a else b)"

text \<open>
  \<^verbatim>\<open>fs.mkdir\<close> with \<^verbatim>\<open>recursive\<close> creates the directory and its missing parent, the
  scratch root.
\<close>

definition createTempDir :: "runtime \<Rightarrow> string \<Rightarrow> host \<Rightarrow> (fault + string) \<times> host" where
  "createTempDir rt sessionId h =
    (let dirPath = path_join TEMP_DIR sessionId in
     case mkdir rt dirPath of
       Some m \<Rightarrow> (Inl (Fault m), h)
     | None \<Rightarrow> (Inr dirPath, h\<lparr>dirs := insert dirPath (insert TEMP_DIR (dirs h))\<rparr>))"

definition writeCodeToFile ::
  "runtime \<Rightarrow> string \<Rightarrow> string \<Rightarrow> string \<Rightarrow> host \<Rightarrow> (fault + string) \<times> host" where
  "writeCodeToFile rt code dirPath lang h =
    (let extension = orElse (getProperty LANGUAGE_EXTENSIONS lang) (Str ''txt'');
         filename = ''code.'' @ toString extension;
         filePath = path_join dirPath filename in
     case writeFile rt filePath code of
       Some m \<Rightarrow> (Inl (Fault m), h)
     | None \<Rightarrow> (Inr filePath, h\<lparr>files := (files h)(filePath \<mapsto> code)\<rparr>))"

text \<open>
  \<^verbatim>\<open>fs.rm\<close> with \<^verbatim>\<open>recursive\<close> and \<^verbatim>\<open>force\<close>: a path that does not exist is
  no error and nothing happens; otherwise the host decides, and on success the
  directory and everything below it are gone.
\<close>

definition below :: "string \<Rightarrow> string \<Rightarrow> bool" where
  "below dirPath p = (p = dirPath \<or> prefix (dirPath @ ''/'') p)"

definition fs_rm :: "runtime \<Rightarrow> string \<Rightarrow> host \<Rightarrow> string option \<times> host" where
  "fs_rm rt p h =
    (if p \<notin> dirs h \<and> files h p = None then (None, h)
     else (case rm rt p of
             None \<Rightarrow>
               (None, h\<lparr>dirs := {d \<in> dirs h. \<not> below p d},
                         files := (\<lambda>q. if below p q then None else files h q)\<rparr>)
           | Some m \<Rightarrow> (Some m, h)))"

text \<open>\<^verbatim>\<open>cleanupTempDir\<close> catches a rejection of \<^verbatim>\<open>fs.rm\<close> and logs it.\<close>

definition cleanupTempDir :: "runtime \<Rightarrow> string \<Rightarrow> host \<Rightarrow> host" where
  "cleanupTempDir rt dirPath h =
    (case fs_rm rt dirPath h of
       (None, h') \<Rightarrow> h'
     | (Some m, h') \<Rightarrow>
         h'\<lparr>console := console h' @ [''Error cleaning up temp directory: '' @ m]\<rparr>)"

definition getDockerCommand ::
  "string \<Rightarrow> string \<Rightarrow> string \<Rightarrow> ExecutionOptions \<Rightarrow> string" where
  "getDockerCommand filePath dirPath lang options =
    (let image = orElse (getProperty LANGUAGE_IMAGES lang) (Str ''alpine:latest'');
         command = orElse (getProperty EXECUTION_COMMANDS lang) (Str ''sh'');
         filename = basename filePath;
         memLimit = (case memoryLimit options of
                       Some m \<Rightarrow> or_string m DEFAULT_MEMORY
                     | None \<Rightarrow> DEFAULT_MEMORY);
         networkFlag = (if networkDisabled options = Some True then ''--network=none'' else '''')
     in ''docker run --rm '' @ networkFlag @ '' -m '' @ memLimit @ '' -v '' @ dirPath
          @ '':/code -w /code '' @ toString image @ '' '' @ toString command @ '' '' @ filename)"

text \<open>
  \<^verbatim>\<open>executeCode\<close>. The two awaits before the \<^verbatim>\<open>try\<close> pass a rejection on to the
  caller at once; the \<^verbatim>\<open>try\<close>/\<^verbatim>\<open>catch\<close>/\<^verbatim>\<open>finally\<close> covers the launch only.
\<close>

definition executeCode ::
  "runtime \<Rightarrow> string \<Rightarrow> ExecutionOptions \<Rightarrow> host \<Rightarrow> (fault + ExecutionResult) \<times> host" where
  "executeCode rt code options h =
    (let sessionId = uuid rt in
     case createTempDir rt sessionId h of
       (Inl f, h1) \<Rightarrow> (Inl f, h1)
     | (Inr dirPath, h1) \<Rightarrow>
        (case writeCodeToFile rt code dirPath (language options) h1 of
           (Inl f, h2) \<Rightarrow> (Inl f, h2)
         | (Inr filePath, h2) \<Rightarrow>
            (let dockerCommand = getDockerCommand filePath dirPath (language options) options;
                 timeout' = (case timeout options of
                               Some t \<Rightarrow> (if t \<noteq> 0 then t else DEFAULT_TIMEOUT)
                             | None \<Rightarrow> DEFAULT_TIMEOUT);
                 startTime = startClock rt;
                 h3 = h2\<lparr>shell := shell h2 @ [dockerCommand]\<rparr>;
                 answer = execPromise rt dockerCommand timeout';
                 endTime = startTime + snd answer;
                 result =
                   (case fst answer of
                      Resolved out err \<Rightarrow>
                        \<lparr>stdout = out, stderr = err, exitCode = Num 0,
                         executionTime = endTime - startTime, memoryUsage = None\<rparr>
                    | Rejected error \<Rightarrow>
                        \<lparr>stdout = or_string (e_stdout error) '''',
                         stderr = or_string (e_stderr error) (e_message error),
                         exitCode = codeOr (e_code error) 1,
                         executionTime = endTime - startTime, memoryUsage = None\<rparr>);
                 h4 = cleanupTempDir rt dirPath h3
             in (Inr result, h4))))"

text \<open>
  Names for what one call of \<^verbatim>\<open>executeCode\<close> computes on the way: the workspace
  \<^verbatim>\<open>dirPath\<close>, the \<^verbatim>\<open>filePath\<close> of the source file, the \<^verbatim>\<open>dockerCommand\<close>
  and the \<^verbatim>\<open>timeout\<close> given to \<^verbatim>\<open>execPromise\<close>.
\<close>

definition workspaceOf :: "runtime \<Rightarrow> string" where
  "workspaceOf rt = path_join TEMP_DIR (uuid rt)"

definition sourcePath :: "runtime \<Rightarrow> ExecutionOptions \<Rightarrow> string" where
  "sourcePath rt options =
    path_join (workspaceOf rt)
      (''code.'' @ toString (orElse (getProperty LANGUAGE_EXTENSIONS (language options)) (Str ''txt'')))"

definition commandOf :: "runtime \<Rightarrow> ExecutionOptions \<Rightarrow> string" where
  "commandOf rt options =
    getDockerCommand (sourcePath rt options) (workspaceOf rt) (language options) options"

definition timeoutOf :: "ExecutionOptions \<Rightarrow> int" where
  "timeoutOf options =
    (case timeout options of
       Some t \<Rightarrow> (if t \<noteq> 0 then t else DEFAULT_TIMEOUT)
     | None \<Rightarrow> DEFAULT_TIMEOUT)"

text \<open>\<^verbatim>\<open>String.prototype.includes\<close>: the second string occurs somewhere in the first.\<close>

fun includes_str :: "string \<Rightarrow> string \<Rightarrow> bool" where
  "includes_str [] sub = (sub = [])"
| "includes_str (c # cs) sub = (prefix sub (c # cs) \<or> includes_str cs sub)"

section \<open>WebSocketService\<close>

text \<open>
  The four tables of the collaboration service. A socket is known by its \<^verbatim>\<open>id\<close>; the
  payload of a code change is opaque text. What the handlers send to the clients
  (\<^verbatim>\<open>emit\<close>, \<^verbatim>\<open>broadcast\<close>) does not touch the tables and is left out, except where
  building the room data reads a member that has no entry in \<^verbatim>\<open>users\<close>: reading a
  property of \<^verbatim>\<open>undefined\<close> throws a \<^verbatim>\<open>TypeError\<close> and the handler stops there.
\<close>

record User =
  u_id :: string
  u_username :: string
  u_room :: string

record Message =
  m_user :: string
  m_text :: string
  m_timestamp :: int

record CodeChange =
  c_user :: string
  c_change :: string
  c_timestamp :: int

record service =
  users :: "string \<rightharpoonup> User"
  rooms :: "string \<rightharpoonup> string set"
  roomHistory :: "string \<rightharpoonup> CodeChange list"
  roomMessages :: "string \<rightharpoonup> Message list"

datatype outcome =
    Done service
  | TypeError service

fun tables :: "outcome \<Rightarrow> service" where
  "tables (Done s) = s"
| "tables (TypeError s) = s"

definition initial :: service where
  "initial = \<lparr>users = Map.empty, rooms = Map.empty,
              roomHistory = Map.empty, roomMessages = Map.empty\<rparr>"

definition handleJoin :: "string \<Rightarrow> string \<Rightarrow> string \<Rightarrow> service \<Rightarrow> outcome" where
  "handleJoin socket username room s =
    (let user = \<lparr>u_id = socket, u_username = username, u_room = room\<rparr>;
         s1 = s\<lparr>users := (users s)(socket \<mapsto> user)\<rparr>;
         s2 = (if rooms s1 room = None
               then s1\<lparr>rooms := (rooms s1)(room \<mapsto> {}),
                       roomHistory := (roomHistory s1)(room \<mapsto> []),
                       roomMessages := (roomMessages s1)(room \<mapsto> [])\<rparr>
               else s1)
     in case rooms s2 room of
          None \<Rightarrow> TypeError s2
        | Some members \<Rightarrow>
           (let s3 = s2\<lparr>rooms := (rooms s2)(room \<mapsto> insert socket members)\<rparr> in
            if \<exists>i \<in> insert socket members. users s3 i = None then TypeError s3
            else Done s3))"

definition handleCodeChange :: "string \<Rightarrow> string \<Rightarrow> int \<Rightarrow> service \<Rightarrow> outcome" where
  "handleCodeChange socket change now s =
    (case users s socket of
       None \<Rightarrow> Done s
     | Some user \<Rightarrow>
        (let codeChange = \<lparr>c_user = u_username user, c_change = change, c_timestamp = now\<rparr>;
             history = (case roomHistory s (u_room user) of Some hs \<Rightarrow> hs | None \<Rightarrow> [])
         in Done (s\<lparr>roomHistory := (roomHistory s)(u_room user \<mapsto> history @ [codeChange])\<rparr>)))"

definition handleMessage :: "string \<Rightarrow> string \<Rightarrow> int \<Rightarrow> service \<Rightarrow> outcome" where
  "handleMessage socket msg now s =
    (case users s socket of
       None \<Rightarrow> Done s
     | Some user \<Rightarrow>
        (let message = \<lparr>m_user = u_username user, m_text = msg, m_timestamp = now\<rparr>;
             messages = (case roomMessages s (u_room user) of Some ms \<Rightarrow> ms | None \<Rightarrow> [])
         in Done (s\<lparr>roomMessages := (roomMessages s)(u_room user \<mapsto> messages @ [message])\<rparr>)))"

definition handleCursorUpdate :: "string \<Rightarrow> string \<Rightarrow> service \<Rightarrow> outcome" where
  "handleCursorUpdate socket position s =
    (case users s socket of
       None \<Rightarrow> Done s
     | Some user \<Rightarrow> Done s)"

definition handleDisconnect :: "string \<Rightarrow> service \<Rightarrow> outcome" where
  "handleDisconnect socket s =
    (case users s socket of
       None \<Rightarrow> Done s
     | Some user \<Rightarrow>
        (case rooms s (u_room user) of
           None \<Rightarrow> Done (s\<lparr>users := (users s)(socket := None)\<rparr>)
         | Some room \<Rightarrow>
            (let s1 = s\<lparr>rooms := (rooms s)(u_room user \<mapsto> room - {socket})\<rparr> in
             if room - {socket} = {}
             then Done (s1\<lparr>rooms := (rooms s1)(u_room user := None),
                            roomHistory := (roomHistory s1)(u_room user := None),
                            roomMessages := (roomMessages s1)(u_room user := None),
                            users := (users s1)(socket := None)\<rparr>)
             else if \<exists>i \<in> room - {socket}. users s1 i = None then TypeError s1
             else Done (s1\<lparr>users := (users s1)(socket := None)\<rparr>))))"

text \<open>\<^verbatim>\<open>createRoom\<close>; the first argument is the identifier \<^verbatim>\<open>uuidv4()\<close> returns.\<close>

definition createRoom :: "string \<Rightarrow> service \<Rightarrow> string \<times> service" where
  "createRoom roomId s =
    (roomId, s\<lparr>rooms := (rooms s)(roomId \<mapsto> {}),
                roomHistory := (roomHistory s)(roomId \<mapsto> []),
                roomMessages := (roomMessages s)(roomId \<mapsto> [])\<rparr>)"

text \<open>
  What can happen to a service: the five socket events of \<^verbatim>\<open>setupSocketHandlers\<close>, each
  with the socket it arrives on, and a call of \<^verbatim>\<open>createRoom\<close>.
\<close>

datatype event =
    Join string string string
  | CodeChanged string string int
  | SendMessage string string int
  | CursorUpdate string string
  | Disconnect string
  | CreateRoom string

fun dispatch :: "event \<Rightarrow> service \<Rightarrow> outcome" where
  "dispatch (Join socket username room) s = handleJoin socket username room s"
| "dispatch (CodeChanged socket change now) s = handleCodeChange socket change now s"
| "dispatch (SendMessage socket msg now) s = handleMessage socket msg now s"
| "dispatch (CursorUpdate socket position) s = handleCursorUpdate socket position s"
| "dispatch (Disconnect socket) s = handleDisconnect socket s"
| "dispatch (CreateRoom roomId) s = Done (snd (createRoom roomId s))"

text \<open>
  The transport delivers nothing from a socket after its \<^verbatim>\<open>disconnect\<close>, and
  \<^verbatim>\<open>uuidv4()\<close> returns an identifier that names no room yet. \<open>run\<close> plays a list of
  events from a service and the set of sockets that are gone, and is \<open>None\<close> when the
  list breaks one of the two rules. After a \<^verbatim>\<open>TypeError\<close> the tables stay as the
  handler left them.
\<close>

fun socketOf :: "event \<Rightarrow> string option" where
  "socketOf (Join socket username room) = Some socket"
| "socketOf (CodeChanged socket change now) = Some socket"
| "socketOf (SendMessage socket msg now) = Some socket"
| "socketOf (CursorUpdate socket position) = Some socket"
| "socketOf (Disconnect socket) = Some socket"
| "socketOf (CreateRoom roomId) = None"

fun admissible :: "event \<Rightarrow> service \<Rightarrow> string set \<Rightarrow> bool" where
  "admissible (CreateRoom roomId) s gone = (rooms s roomId = None)"
| "admissible ev s gone = (case socketOf ev of Some socket \<Rightarrow> socket \<notin> gone | None \<Rightarrow> True)"

fun goneAfter :: "event \<Rightarrow> string set \<Rightarrow> string set" where
  "goneAfter (Disconnect socket) gone = insert socket gone"
| "goneAfter ev gone = gone"

fun run :: "event list \<Rightarrow> service \<times> string set \<Rightarrow> (service \<times> string set) option" where
  "run [] c = Some c"
| "run (ev # evs) (s, gone) =
    (if admissible ev s gone then run evs (tables (dispatch ev s), goneAfter ev gone)
     else None)"

text \<open>The same without the two rules.\<close>

fun play :: "event list \<Rightarrow> service \<Rightarrow> service" where
  "play [] s = s"
| "play (ev # evs) s = play evs (tables (dispatch ev s))"

text \<open>
  Two properties of a service: the three room-keyed tables have the same keys, and every
  user whose socket is not gone is a member of the room its entry names.
\<close>

definition keysAgree :: "service \<Rightarrow> bool" where
  "keysAgree s =
    (dom (rooms s) = dom (roomHistory s) \<and> dom (roomHistory s) = dom (roomMessages s))"

definition membersTracked :: "service \<Rightarrow> string set \<Rightarrow> bool" where
  "membersTracked s gone =
    (\<forall>v u. users s v = Some u \<and> v \<notin> gone \<longrightarrow>
       (\<exists>m. rooms s (u_room u) = Some m \<and> v \<in> m))"

section \<open>Example hosts, requests and event lists\<close>

text \<open>
  A host on which every call succeeds and the sandboxed program prints \<^verbatim>\<open>hello\<close>, and
  variations of it in which one step goes wrong.
\<close>

definition exampleHost :: host where
  "exampleHost = \<lparr>dirs = {''/tmp''}, files = Map.empty, shell = [], console = []\<rparr>"

definition pythonOptions :: ExecutionOptions where
  "pythonOptions =
    \<lparr>timeout = None, memoryLimit = None, networkDisabled = None, language = ''python''\<rparr>"

definition helloProcess :: process where
  "helloProcess =
    \<lparr>emits = [(840, Stdout ''hello'')], exitsAt = 850, status = 0, onTerm = None, dies = 4\<rparr>"

definition helloRuntime :: runtime where
  "helloRuntime =
    \<lparr>uuid = ''1b9d6bcd-bbfd-4b2d-9b5d-ab8dfbbd4bed'',
     mkdir = (\<lambda>p. None),
     writeFile = (\<lambda>p c. None),
     spawn = (\<lambda>cmd. Launched helloProcess),
     rm = (\<lambda>p. None),
     startClock = 1000,
     inspect = (\<lambda>n. ''a number'')\<rparr>"

definition rmFailsRuntime :: runtime where
  "rmFailsRuntime = helloRuntime\<lparr>rm := (\<lambda>p. Some ''EBUSY: resource busy or locked, rm'')\<rparr>"

definition writeFailsRuntime :: runtime where
  "writeFailsRuntime =
    helloRuntime\<lparr>writeFile := (\<lambda>p c. Some ''ENOSPC: no space left on device, write'')\<rparr>"

text \<open>
  A program that prints \<^verbatim>\<open>partial\<close> and would run for a minute; sent the kill signal,
  it ends from it 4 ms later.
\<close>

definition timeoutRuntime :: runtime where
  "timeoutRuntime =
    helloRuntime\<lparr>spawn := (\<lambda>cmd. Launched
      \<lparr>emits = [(20, Stdout ''partial'')], exitsAt = 60000, status = 0, onTerm = None,
       dies = 4\<rparr>)\<rparr>"

text \<open>A program that writes to both streams and ends by itself with status \<open>n\<close>.\<close>

definition exitProcess :: "int \<Rightarrow> string \<Rightarrow> string \<Rightarrow> int \<Rightarrow> process" where
  "exitProcess n out err ms =
    \<lparr>emits = [(20, Stdout out), (30, Stderr err)], exitsAt = ms, status = n, onTerm = None,
     dies = 4\<rparr>"

definition exitRuntime :: "int \<Rightarrow> string \<Rightarrow> string \<Rightarrow> runtime" where
  "exitRuntime n out err = helloRuntime\<lparr>spawn := (\<lambda>cmd. Launched (exitProcess n out err 900))\<rparr>"

text \<open>The same, ending by itself after 10004 ms.\<close>

definition lateExitRuntime :: "int \<Rightarrow> string \<Rightarrow> string \<Rightarrow> runtime" where
  "lateExitRuntime n out err =
    helloRuntime\<lparr>spawn := (\<lambda>cmd. Launched (exitProcess n out err 10004))\<rparr>"

text \<open>
  A program that writes one byte more than 1 MiB to its output in one chunk and ends
  with status 0.
\<close>

definition floodRuntime :: runtime where
  "floodRuntime =
    helloRuntime\<lparr>spawn := (\<lambda>cmd. Launched
      \<lparr>emits = [(100, Stdout (replicate 1048577 CHR ''a''))], exitsAt = 500, status = 0,
       onTerm = None, dies = 4\<rparr>)\<rparr>"

text \<open>The shell cannot be started at all, and the deletion fails as well.\<close>

definition noShellRuntime :: runtime where
  "noShellRuntime =
    helloRuntime
      \<lparr>spawn := (\<lambda>cmd. SpawnFails ''ENOENT'' ''spawn /bin/sh ENOENT'' 850),
       rm := (\<lambda>p. Some ''EBUSY: resource busy or locked, rm'')\<rparr>"

text \<open>
  Two sockets share a room, one edits and leaves, a room is created by the service.
\<close>

definition exampleEvents :: "event list" where
  "exampleEvents =
    [Join ''sockA'' ''ann'' ''r1'',
     CodeChanged ''sockA'' ''+x'' 5,
     Join ''sockB'' ''bob'' ''r1'',
     SendMessage ''sockB'' ''hi'' 7,
     Disconnect ''sockA'',
     CreateRoom ''7c9e6679-7425-40de-944b-e07fc1f90ae7'']"

text \<open>
  A list that breaks the rule on \<^verbatim>\<open>createRoom\<close>: the identifier returned names a room
  that is in use.
\<close>

definition collidingEvents :: "event list" where
  "collidingEvents =
    [Join ''sockA'' ''ann'' ''r1'',
     CreateRoom ''r1'',
     Join ''sockB'' ''bob'' ''r1'',
     Disconnect ''sockB'',
     CodeChanged ''sockA'' ''+x'' 5]"

text \<open>
  A list that breaks the rule on sockets: \<^verbatim>\<open>sockC\<close> and \<^verbatim>\<open>sockD\<close> are heard from
  after their \<^verbatim>\<open>disconnect\<close>. (The first \<^verbatim>\<open>disconnect\<close> of \<^verbatim>\<open>sockD\<close> throws while
  building the room data, because \<^verbatim>\<open>sockC\<close> is still listed in the room without being
  a user, and so leaves \<^verbatim>\<open>sockD\<close> registered.)
\<close>

definition lateEvents :: "event list" where
  "lateEvents =
    [Join ''sockC'' ''cy'' ''r1'',
     Join ''sockC'' ''cy'' ''r2'',
     Disconnect ''sockC'',
     Join ''sockD'' ''dee'' ''r1'',
     Disconnect ''sockD'',
     Join ''sockC'' ''cy'' ''r1'',
     Disconnect ''sockC'',
     CodeChanged ''sockD'' ''+x'' 9]"

section \<open>Properties of DockerExecutor\<close>

lemmas table_defs = getProperty_def LANGUAGE_EXTENSIONS_def LANGUAGE_IMAGES_def
  EXECUTION_COMMANDS_def objectPrototypeMembers_def orElse_def

lemmas example_defs = exampleHost_def pythonOptions_def helloRuntime_def helloProcess_def
  rmFailsRuntime_def writeFailsRuntime_def timeoutRuntime_def exitProcess_def exitRuntime_def
  lateExitRuntime_def floodRuntime_def noShellRuntime_def

lemmas node_defs = execPromise_def receivedBy_def maxBuffer_def timedOut_def exitedWith_def
  commandFailed_def codeOr_def

lemmas path_defs = workspaceOf_def sourcePath_def commandOf_def timeoutOf_def path_join_def
  TEMP_DIR_def basename_def DEFAULT_MEMORY_def DEFAULT_TIMEOUT_def or_string_def

subsection \<open>The three ways a call ends\<close>

lemma executeCode_mkdir_rejects:
  "mkdir rt (workspaceOf rt) = Some m \<Longrightarrow> executeCode rt code options h = (Inl (Fault m), h)"
  by (simp add: executeCode_def createTempDir_def workspaceOf_def Let_def)

lemma executeCode_write_rejects:
  "mkdir rt (workspaceOf rt) = None \<Longrightarrow> writeFile rt (sourcePath rt options) code = Some m \<Longrightarrow>
   executeCode rt code options h =
     (Inl (Fault m), h\<lparr>dirs := insert (workspaceOf rt) (insert TEMP_DIR (dirs h))\<rparr>)"
  by (simp add: executeCode_def createTempDir_def writeCodeToFile_def workspaceOf_def
      sourcePath_def Let_def)

lemma executeCode_launches:
  "mkdir rt (workspaceOf rt) = None \<Longrightarrow> writeFile rt (sourcePath rt options) code = None \<Longrightarrow>
   executeCode rt code options h =
     (Inr (case fst (execPromise rt (commandOf rt options) (timeoutOf options)) of
             Resolved out err \<Rightarrow>
               \<lparr>stdout = out, stderr = err, exitCode = Num 0,
                executionTime = snd (execPromise rt (commandOf rt options) (timeoutOf options)),
                memoryUsage = None\<rparr>
           | Rejected error \<Rightarrow>
               \<lparr>stdout = or_string (e_stdout error) [],
                stderr = or_string (e_stderr error) (e_message error),
                exitCode = codeOr (e_code error) 1,
                executionTime = snd (execPromise rt (commandOf rt options) (timeoutOf options)),
                memoryUsage = None\<rparr>),
      cleanupTempDir rt (workspaceOf rt)
        (h\<lparr>dirs := insert (workspaceOf rt) (insert TEMP_DIR (dirs h)),
           files := (files h)(sourcePath rt options \<mapsto> code),
           shell := shell h @ [commandOf rt options]\<rparr>))"
  by (simp add: executeCode_def createTempDir_def writeCodeToFile_def workspaceOf_def
      sourcePath_def commandOf_def timeoutOf_def Let_def split: exec_outcome.splits)

lemma cleanupTempDir_removes:
  "d \<in> dirs h \<Longrightarrow> rm rt d = None \<Longrightarrow>
   d \<notin> dirs (cleanupTempDir rt d h) \<and> files (cleanupTempDir rt d h) (path_join d f) = None"
  by (simp add: cleanupTempDir_def fs_rm_def below_def path_join_def)

lemma cleanupTempDir_keeps_shell: "shell (cleanupTempDir rt d h) = shell h"
  by (simp add: cleanupTempDir_def fs_rm_def split: option.splits)

subsection \<open>Cleanup of the workspace\<close>

text \<open>
  C1, as stated, fails in two ways. When the deletion itself is rejected, the rejection
  is logged and the workspace stays. When the write of the source file is rejected, the
  call leaves through the await in front of the \<^verbatim>\<open>try\<close>, the \<^verbatim>\<open>finally\<close> never runs,
  and the workspace created a line earlier stays as well.
\<close>

theorem workspace_left_behind_counterexample:
  "''/tmp/code-execution/1b9d6bcd-bbfd-4b2d-9b5d-ab8dfbbd4bed''
      \<in> dirs (snd (executeCode rmFailsRuntime ''print(1)'' pythonOptions exampleHost))
   \<and> fst (executeCode writeFailsRuntime ''print(1)'' pythonOptions exampleHost)
      = Inl (Fault ''ENOSPC: no space left on device, write'')
   \<and> ''/tmp/code-execution/1b9d6bcd-bbfd-4b2d-9b5d-ab8dfbbd4bed''
      \<in> dirs (snd (executeCode writeFailsRuntime ''print(1)'' pythonOptions exampleHost))"
  by (simp add: executeCode_def createTempDir_def writeCodeToFile_def cleanupTempDir_def
      fs_rm_def getDockerCommand_def node_defs example_defs path_defs table_defs Let_def)

text \<open>
  C1, amended: when the workspace was created and the source file written, then whatever
  the sandboxed command does (success, failure, timeout, failed launch) the workspace
  directory and the source file in it no longer exist when the call returns, provided
  the deletion is not itself rejected.
\<close>

theorem workspace_removed_after_launch:
  "mkdir rt (workspaceOf rt) = None \<Longrightarrow> writeFile rt (sourcePath rt options) code = None \<Longrightarrow>
   rm rt (workspaceOf rt) = None \<Longrightarrow>
   workspaceOf rt \<notin> dirs (snd (executeCode rt code options h))
   \<and> files (snd (executeCode rt code options h)) (sourcePath rt options) = None"
  by (simp add: executeCode_launches cleanupTempDir_removes sourcePath_def)

theorem workspace_removed_after_launch_witness:
  "mkdir (exitRuntime 2 ''out'' ''err'') (workspaceOf (exitRuntime 2 ''out'' ''err'')) = None
   \<and> writeFile (exitRuntime 2 ''out'' ''err'')
        (sourcePath (exitRuntime 2 ''out'' ''err'') pythonOptions) ''print(1)'' = None
   \<and> rm (exitRuntime 2 ''out'' ''err'') (workspaceOf (exitRuntime 2 ''out'' ''err'')) = None
   \<and> ''/tmp/code-execution/1b9d6bcd-bbfd-4b2d-9b5d-ab8dfbbd4bed''
      \<notin> dirs (snd (executeCode (exitRuntime 2 ''out'' ''err'') ''print(1)'' pythonOptions
                      exampleHost))
   \<and> files (snd (executeCode (exitRuntime 2 ''out'' ''err'') ''print(1)'' pythonOptions
                    exampleHost))
        ''/tmp/code-execution/1b9d6bcd-bbfd-4b2d-9b5d-ab8dfbbd4bed/code.py'' = None"
  using workspace_removed_after_launch
    [of "exitRuntime 2 ''out'' ''err''" pythonOptions "''print(1)''" exampleHost]
  by (simp add: example_defs path_defs table_defs)

subsection \<open>The command does not depend on the code\<close>

text \<open>
  C2: two runs that differ only in the code text hand the same command line to the
  shell; it is built from the session identifier and the options alone.
\<close>

theorem command_independent_of_code:
  "mkdir rt (workspaceOf rt) = None \<Longrightarrow>
   writeFile rt (sourcePath rt options) code1 = None \<Longrightarrow>
   writeFile rt (sourcePath rt options) code2 = None \<Longrightarrow>
   shell (snd (executeCode rt code1 options h)) = shell h @ [commandOf rt options]
   \<and> shell (snd (executeCode rt code2 options h)) = shell (snd (executeCode rt code1 options h))"
  by (simp add: executeCode_launches cleanupTempDir_keeps_shell)

theorem command_independent_of_code_witness:
  "mkdir helloRuntime (workspaceOf helloRuntime) = None
   \<and> writeFile helloRuntime (sourcePath helloRuntime pythonOptions) ''print(1)'' = None
   \<and> writeFile helloRuntime (sourcePath helloRuntime pythonOptions) ''; rm -rf / #'' = None
   \<and> shell (snd (executeCode helloRuntime ''print(1)'' pythonOptions exampleHost))
       = [''docker run --rm  -m 256m -v /tmp/code-execution/1b9d6bcd-bbfd-4b2d-9b5d-ab8dfbbd4bed:/code -w /code python:3.10-alpine python code.py'']
   \<and> shell (snd (executeCode helloRuntime ''; rm -rf / #'' pythonOptions exampleHost))
       = shell (snd (executeCode helloRuntime ''print(1)'' pythonOptions exampleHost))"
  using command_independent_of_code
    [of helloRuntime pythonOptions "''print(1)''" "''; rm -rf / #''" exampleHost]
  by (simp add: example_defs path_defs getDockerCommand_def table_defs)

subsection \<open>Which failures reach the caller\<close>

text \<open>
  C3, as stated, fails: the workspace exists, the write of the source file is rejected,
  and the caller gets the rejection, not a result.
\<close>

theorem write_failure_propagates_counterexample:
  "mkdir writeFailsRuntime (workspaceOf writeFailsRuntime) = None
   \<and> fst (executeCode writeFailsRuntime ''print(1)'' pythonOptions exampleHost)
      = Inl (Fault ''ENOSPC: no space left on device, write'')"
  by (simp add: executeCode_def createTempDir_def writeCodeToFile_def
      example_defs path_defs table_defs Let_def)

text \<open>
  C3, amended: once the workspace is created and the source file written, the call
  returns a result whatever the launch and the deletion do; a rejected creation of the
  workspace and a rejected write of the source file both reach the caller.
\<close>

theorem faults_only_from_creation_or_write:
  "(mkdir rt (workspaceOf rt) = None \<and> writeFile rt (sourcePath rt options) code = None
      \<longrightarrow> (\<exists>result. fst (executeCode rt code options h) = Inr result))
   \<and> (mkdir rt (workspaceOf rt) = Some m
      \<longrightarrow> fst (executeCode rt code options h) = Inl (Fault m))
   \<and> (mkdir rt (workspaceOf rt) = None \<and> writeFile rt (sourcePath rt options) code = Some m
      \<longrightarrow> fst (executeCode rt code options h) = Inl (Fault m))"
  by (simp add: executeCode_launches executeCode_mkdir_rejects executeCode_write_rejects)

theorem faults_only_from_creation_or_write_witness:
  "mkdir noShellRuntime (workspaceOf noShellRuntime) = None
   \<and> writeFile noShellRuntime (sourcePath noShellRuntime pythonOptions) ''print(1)'' = None
   \<and> fst (executeCode noShellRuntime ''print(1)'' pythonOptions exampleHost)
      = Inr \<lparr>stdout = [], stderr = ''spawn /bin/sh ENOENT'', exitCode = SysName ''ENOENT'',
             executionTime = 850, memoryUsage = None\<rparr>"
  using faults_only_from_creation_or_write
    [of noShellRuntime pythonOptions "''print(1)''" exampleHost]
  by (simp add: executeCode_launches execPromise_def timeoutOf_def DEFAULT_TIMEOUT_def
      example_defs or_string_def codeOr_def)

subsection \<open>What exec answers\<close>





lemma execPromise_rm: "execPromise (rt\<lparr>rm := r\<rparr>) cmd t = execPromise rt cmd t"
  by (simp add: execPromise_def)

subsection \<open>Timeout\<close>




subsection \<open>A program that ends before the deadline\<close>




subsection \<open>Unrecognized languages\<close>

lemma table_keys:
  "map fst LANGUAGE_IMAGES = map fst LANGUAGE_EXTENSIONS"
  "map fst EXECUTION_COMMANDS = map fst LANGUAGE_EXTENSIONS"
  by (simp_all add: LANGUAGE_IMAGES_def LANGUAGE_EXTENSIONS_def EXECUTION_COMMANDS_def)

lemma getProperty_unknown:
  assumes "lang \<notin> set (map fst table)" "lang \<notin> set (map fst objectPrototypeMembers)"
    "lang \<noteq> ''__proto__''"
  shows "getProperty table lang = Undefined"
proof -
  have "map_of table lang = None" using assms(1) by (simp add: map_of_eq_None_iff)
  moreover have "map_of objectPrototypeMembers lang = None"
    using assms(2) by (simp add: map_of_eq_None_iff)
  ultimately show ?thesis using assms(3) by (simp add: getProperty_def)
qed

text \<open>
  An identifier that is neither in the tables nor the name of an inherited member gets
  the generic profile: the file is \<^verbatim>\<open>code.txt\<close>, the image \<^verbatim>\<open>alpine:latest\<close> and the
  run command \<^verbatim>\<open>sh\<close>.
\<close>

lemma unrecognized_language_generic:
  assumes "lang \<notin> set (map fst LANGUAGE_EXTENSIONS)"
    "lang \<notin> set (map fst objectPrototypeMembers)" "lang \<noteq> ''__proto__''"
  shows "fst (writeCodeToFile rt code dirPath lang h) =
           (case writeFile rt (path_join dirPath ''code.txt'') code of
              None \<Rightarrow> Inr (path_join dirPath ''code.txt'')
            | Some m \<Rightarrow> Inl (Fault m))"
    and "\<exists>pre. getDockerCommand filePath dirPath lang options
           = pre @ '':/code -w /code alpine:latest sh '' @ basename filePath"
proof -
  have e: "getProperty LANGUAGE_EXTENSIONS lang = Undefined"
    using assms by (rule getProperty_unknown)
  have "lang \<notin> set (map fst LANGUAGE_IMAGES)"
    unfolding table_keys by (rule assms(1))
  then have i: "getProperty LANGUAGE_IMAGES lang = Undefined"
    using assms(2,3) by (rule getProperty_unknown)
  have "lang \<notin> set (map fst EXECUTION_COMMANDS)"
    unfolding table_keys by (rule assms(1))
  then have c: "getProperty EXECUTION_COMMANDS lang = Undefined"
    using assms(2,3) by (rule getProperty_unknown)
  show "fst (writeCodeToFile rt code dirPath lang h) =
           (case writeFile rt (path_join dirPath ''code.txt'') code of
              None \<Rightarrow> Inr (path_join dirPath ''code.txt'')
            | Some m \<Rightarrow> Inl (Fault m))"
    by (simp add: writeCodeToFile_def e orElse_def Let_def split: option.splits)
  have "getDockerCommand filePath dirPath lang options
      = (''docker run --rm ''
         @ (if networkDisabled options = Some True then ''--network=none'' else [])
         @ '' -m '' @ (case memoryLimit options of Some m \<Rightarrow> or_string m DEFAULT_MEMORY
                        | None \<Rightarrow> DEFAULT_MEMORY) @ '' -v '' @ dirPath)
        @ '':/code -w /code alpine:latest sh '' @ basename filePath"
    by (simp add: getDockerCommand_def i c orElse_def Let_def)
  then show "\<exists>pre. getDockerCommand filePath dirPath lang options
           = pre @ '':/code -w /code alpine:latest sh '' @ basename filePath"
    by blast
qed

text \<open>
  C6 at the identifier \<^verbatim>\<open>constructor\<close>, which is outside the supported set: the lookups
  find the member every object inherits, so the file written is not \<^verbatim>\<open>code.txt\<close> and
  the command names neither the generic image nor the shell.
\<close>

theorem inherited_member_not_generic:
  "fst (writeCodeToFile helloRuntime ''print(1)''
          ''/tmp/code-execution/1b9d6bcd-bbfd-4b2d-9b5d-ab8dfbbd4bed'' ''constructor'' exampleHost)
     = Inr ''/tmp/code-execution/1b9d6bcd-bbfd-4b2d-9b5d-ab8dfbbd4bed/code.function Object() { [native code] }''
   \<and> getDockerCommand
        ''/tmp/code-execution/1b9d6bcd-bbfd-4b2d-9b5d-ab8dfbbd4bed/code.function Object() { [native code] }''
        ''/tmp/code-execution/1b9d6bcd-bbfd-4b2d-9b5d-ab8dfbbd4bed'' ''constructor''
        (pythonOptions\<lparr>language := ''constructor''\<rparr>)
     = ''docker run --rm  -m 256m -v /tmp/code-execution/1b9d6bcd-bbfd-4b2d-9b5d-ab8dfbbd4bed:/code -w /code function Object() { [native code] } function Object() { [native code] } code.function Object() { [native code] }''"
  by (simp add: writeCodeToFile_def getDockerCommand_def example_defs path_defs table_defs Let_def)

subsection \<open>A failed deletion\<close>

text \<open>
  C7: once a result is computed, the outcome of the deletion does not change it and is
  never raised: whatever \<^verbatim>\<open>fs.rm\<close> answers, the call returns the same result; a
  rejection is written to the error log; and deleting a workspace that is already absent
  changes nothing and logs nothing.
\<close>

theorem cleanup_failure_swallowed:
  "mkdir rt (workspaceOf rt) = None \<Longrightarrow> writeFile rt (sourcePath rt options) code = None \<Longrightarrow>
   fst (executeCode (rt\<lparr>rm := r\<rparr>) code options h) = fst (executeCode rt code options h)
   \<and> (\<exists>result. fst (executeCode (rt\<lparr>rm := r\<rparr>) code options h) = Inr result)
   \<and> (r (workspaceOf rt) = Some m \<longrightarrow>
        console (snd (executeCode (rt\<lparr>rm := r\<rparr>) code options h))
          = console h @ [''Error cleaning up temp directory: '' @ m])
   \<and> (d \<notin> dirs h \<and> files h d = None \<longrightarrow> cleanupTempDir (rt\<lparr>rm := r\<rparr>) d h = h)"
proof -
  assume a: "mkdir rt (workspaceOf rt) = None" "writeFile rt (sourcePath rt options) code = None"
  let ?rt = "rt\<lparr>rm := r\<rparr>"
  have w: "workspaceOf ?rt = workspaceOf rt" "sourcePath ?rt options = sourcePath rt options"
    "commandOf ?rt options = commandOf rt options"
    by (simp_all add: workspaceOf_def sourcePath_def commandOf_def)
  have a': "mkdir ?rt (workspaceOf ?rt) = None" "writeFile ?rt (sourcePath ?rt options) code = None"
    using a by (simp_all add: w)
  note l = executeCode_launches [OF a] and l' = executeCode_launches [OF a']
  have same: "fst (executeCode ?rt code options h) = fst (executeCode rt code options h)"
    by (simp add: l l' w execPromise_rm split: exec_outcome.splits)
  have returned: "\<exists>result. fst (executeCode ?rt code options h) = Inr result"
    by (simp add: l')
  have logged: "r (workspaceOf rt) = Some m \<longrightarrow>
        console (snd (executeCode ?rt code options h))
          = console h @ [''Error cleaning up temp directory: '' @ m]"
    by (simp add: l' w cleanupTempDir_def fs_rm_def)
  have absent: "d \<notin> dirs h \<and> files h d = None \<longrightarrow> cleanupTempDir ?rt d h = h"
    by (simp add: cleanupTempDir_def fs_rm_def)
  from same returned logged absent show ?thesis by blast
qed

theorem cleanup_failure_swallowed_witness:
  "mkdir helloRuntime (workspaceOf helloRuntime) = None
   \<and> writeFile helloRuntime (sourcePath helloRuntime pythonOptions) ''print(1)'' = None
   \<and> fst (executeCode (helloRuntime\<lparr>rm := (\<lambda>p. Some ''EBUSY: resource busy or locked, rm'')\<rparr>)
            ''print(1)'' pythonOptions exampleHost)
      = Inr \<lparr>stdout = ''hello'', stderr = [], exitCode = Num 0, executionTime = 850,
             memoryUsage = None\<rparr>
   \<and> console (snd (executeCode
                     (helloRuntime\<lparr>rm := (\<lambda>p. Some ''EBUSY: resource busy or locked, rm'')\<rparr>)
                     ''print(1)'' pythonOptions exampleHost))
      = [''Error cleaning up temp directory: EBUSY: resource busy or locked, rm'']
   \<and> cleanupTempDir (helloRuntime\<lparr>rm := (\<lambda>p. Some ''EBUSY: resource busy or locked, rm'')\<rparr>)
        ''/tmp/code-execution/gone'' exampleHost = exampleHost"
  using cleanup_failure_swallowed [of helloRuntime pythonOptions "''print(1)''"
      "\<lambda>p. Some ''EBUSY: resource busy or locked, rm''" exampleHost
      "''EBUSY: resource busy or locked, rm''" "''/tmp/code-execution/gone''"]
  by (simp add: executeCode_launches node_defs timeoutOf_def DEFAULT_TIMEOUT_def example_defs
      Let_def)

subsection \<open>Network and memory options\<close>

text \<open>
  C8, as stated, fails: with \<^verbatim>\<open>networkDisabled\<close> omitted, a \<^verbatim>\<open>memoryLimit\<close> of
  \<^verbatim>\<open>256m --network=none\<close> composes a command that contains the network-disabling flag.
\<close>

theorem network_flag_through_memoryLimit_counterexample:
  "networkDisabled (pythonOptions\<lparr>memoryLimit := Some ''256m --network=none''\<rparr>) = None
   \<and> getDockerCommand ''/tmp/code-execution/1b9d6bcd-bbfd-4b2d-9b5d-ab8dfbbd4bed/code.py''
        ''/tmp/code-execution/1b9d6bcd-bbfd-4b2d-9b5d-ab8dfbbd4bed'' ''python''
        (pythonOptions\<lparr>memoryLimit := Some ''256m --network=none''\<rparr>)
      = ''docker run --rm  -m 256m --network=none -v /tmp/code-execution/1b9d6bcd-bbfd-4b2d-9b5d-ab8dfbbd4bed:/code -w /code python:3.10-alpine python code.py''
   \<and> includes_str
        (getDockerCommand ''/tmp/code-execution/1b9d6bcd-bbfd-4b2d-9b5d-ab8dfbbd4bed/code.py''
          ''/tmp/code-execution/1b9d6bcd-bbfd-4b2d-9b5d-ab8dfbbd4bed'' ''python''
          (pythonOptions\<lparr>memoryLimit := Some ''256m --network=none''\<rparr>))
        ''--network=none''"
  by (simp add: getDockerCommand_def example_defs path_defs table_defs Let_def)

text \<open>
  C8, amended: every composed command starts with \<^verbatim>\<open>docker run --rm\<close>, then a slot that
  holds \<^verbatim>\<open>--network=none\<close> exactly when \<^verbatim>\<open>networkDisabled\<close> is true and is empty
  otherwise, then \<^verbatim>\<open>-m\<close> with the caller's \<^verbatim>\<open>memoryLimit\<close> when that is a non-empty
  string and with the default \<^verbatim>\<open>256m\<close> otherwise.
\<close>

theorem network_and_memory_slots:
  "\<exists>rest. getDockerCommand filePath dirPath lang options =
     ''docker run --rm ''
     @ (if networkDisabled options = Some True then ''--network=none'' else [])
     @ '' -m ''
     @ (case memoryLimit options of
          Some m \<Rightarrow> (if m = [] then DEFAULT_MEMORY else m)
        | None \<Rightarrow> DEFAULT_MEMORY)
     @ '' -v '' @ rest"
  by (simp add: getDockerCommand_def or_string_def Let_def split: option.splits)

text \<open>
  C9: a non-empty \<^verbatim>\<open>memoryLimit\<close> stands, character for character, after \<^verbatim>\<open>-m\<close> in the
  one command line the call hands to the shell.
\<close>

theorem memoryLimit_interpolated_verbatim:
  "memoryLimit options = Some m \<Longrightarrow> m \<noteq> [] \<Longrightarrow>
   mkdir rt (workspaceOf rt) = None \<Longrightarrow> writeFile rt (sourcePath rt options) code = None \<Longrightarrow>
   \<exists>rest. shell (snd (executeCode rt code options h)) =
     shell h @ [''docker run --rm ''
                @ (if networkDisabled options = Some True then ''--network=none'' else [])
                @ '' -m '' @ m @ '' -v '' @ rest]"
  by (simp add: executeCode_launches cleanupTempDir_keeps_shell commandOf_def
      getDockerCommand_def or_string_def Let_def)

theorem memoryLimit_interpolated_verbatim_witness:
  "memoryLimit (pythonOptions\<lparr>memoryLimit := Some ''1g --privileged''\<rparr>) = Some ''1g --privileged''
   \<and> ''1g --privileged'' \<noteq> []
   \<and> mkdir helloRuntime (workspaceOf helloRuntime) = None
   \<and> shell (snd (executeCode helloRuntime ''print(1)''
        (pythonOptions\<lparr>memoryLimit := Some ''1g --privileged''\<rparr>) exampleHost))
      = [''docker run --rm  -m 1g --privileged -v /tmp/code-execution/1b9d6bcd-bbfd-4b2d-9b5d-ab8dfbbd4bed:/code -w /code python:3.10-alpine python code.py'']"
  using memoryLimit_interpolated_verbatim
    [of "pythonOptions\<lparr>memoryLimit := Some ''1g --privileged''\<rparr>" "''1g --privileged''"
      helloRuntime "''print(1)''" exampleHost]
  by (simp add: executeCode_launches cleanupTempDir_keeps_shell getDockerCommand_def
      example_defs path_defs table_defs Let_def)

section \<open>Properties of WebSocketService\<close>

lemmas service_defs = handleJoin_def handleCodeChange_def handleMessage_def
  handleCursorUpdate_def handleDisconnect_def createRoom_def initial_def Let_def
  insert_Diff_if

lemma keysAgree_pointwise:
  "keysAgree s \<longleftrightarrow>
    (\<forall>k. (rooms s k = None \<longleftrightarrow> roomHistory s k = None)
        \<and> (roomHistory s k = None \<longleftrightarrow> roomMessages s k = None))"
  unfolding keysAgree_def by (auto simp add: set_eq_iff domIff simp del: not_None_eq)

lemma tracked_room:
  "membersTracked s gone \<Longrightarrow> users s v = Some u \<Longrightarrow> v \<notin> gone \<Longrightarrow>
   \<exists>m. rooms s (u_room u) = Some m \<and> v \<in> m"
  unfolding membersTracked_def by blast

subsection \<open>Each handler keeps both properties\<close>

lemma handleJoin_keys:
  "keysAgree s \<Longrightarrow> keysAgree (tables (handleJoin socket username room s))"
  unfolding keysAgree_pointwise
  by (simp add: handleJoin_def Let_def split: option.splits)

lemma handleJoin_tables:
  "users (tables (handleJoin socket username room s))
     = (users s)(socket \<mapsto> \<lparr>u_id = socket, u_username = username, u_room = room\<rparr>)"
  "rooms (tables (handleJoin socket username room s))
     = (rooms s)(room \<mapsto> insert socket (case rooms s room of None \<Rightarrow> {} | Some m \<Rightarrow> m))"
  by (simp_all add: handleJoin_def Let_def split: option.splits)

lemma handleJoin_tracked:
  assumes "membersTracked s gone"
  shows "membersTracked (tables (handleJoin socket username room s)) gone"
  unfolding membersTracked_def
proof (intro allI impI, elim conjE)
  fix v u
  let ?s' = "tables (handleJoin socket username room s)"
  assume u: "users ?s' v = Some u" and vg: "v \<notin> gone"
  show "\<exists>m. rooms ?s' (u_room u) = Some m \<and> v \<in> m"
  proof (cases "v = socket")
    case True
    with u have "u_room u = room" by (auto simp add: handleJoin_tables)
    with True show ?thesis by (simp add: handleJoin_tables)
  next
    case False
    with u have "users s v = Some u" by (simp add: handleJoin_tables)
    from tracked_room [OF assms this vg]
    obtain m where "rooms s (u_room u) = Some m" "v \<in> m" by blast
    then show ?thesis by (auto simp add: handleJoin_tables)
  qed
qed

lemma handleCodeChange_keys:
  assumes "keysAgree s" "membersTracked s gone" "socket \<notin> gone"
  shows "keysAgree (tables (handleCodeChange socket change now s))"
proof (cases "users s socket")
  case None
  then show ?thesis using assms(1) by (simp add: handleCodeChange_def)
next
  case (Some user)
  from tracked_room [OF assms(2) Some assms(3)]
  have "rooms s (u_room user) \<noteq> None" by auto
  then show ?thesis
    using assms(1) Some unfolding keysAgree_pointwise
    by (simp add: handleCodeChange_def Let_def)
qed

lemma handleCodeChange_tracked:
  "membersTracked s gone \<Longrightarrow> membersTracked (tables (handleCodeChange socket change now s)) gone"
  unfolding membersTracked_def
  by (simp add: handleCodeChange_def Let_def split: option.splits)

lemma handleMessage_keys:
  assumes "keysAgree s" "membersTracked s gone" "socket \<notin> gone"
  shows "keysAgree (tables (handleMessage socket msg now s))"
proof (cases "users s socket")
  case None
  then show ?thesis using assms(1) by (simp add: handleMessage_def)
next
  case (Some user)
  from tracked_room [OF assms(2) Some assms(3)]
  have "rooms s (u_room user) \<noteq> None" by auto
  then show ?thesis
    using assms(1) Some unfolding keysAgree_pointwise
    by (simp add: handleMessage_def Let_def)
qed

lemma handleMessage_tracked:
  "membersTracked s gone \<Longrightarrow> membersTracked (tables (handleMessage socket msg now s)) gone"
  unfolding membersTracked_def
  by (simp add: handleMessage_def Let_def split: option.splits)

lemma handleCursorUpdate_same: "tables (handleCursorUpdate socket position s) = s"
  by (simp add: handleCursorUpdate_def split: option.splits)

lemma handleDisconnect_keys:
  assumes "keysAgree s"
  shows "keysAgree (tables (handleDisconnect socket s))"
proof (cases "users s socket")
  case None
  then show ?thesis using assms by (simp add: handleDisconnect_def)
next
  case (Some user)
  show ?thesis
  proof (cases "rooms s (u_room user)")
    case None
    with Some show ?thesis using assms by (simp add: handleDisconnect_def keysAgree_def)
  next
    case (Some members)
    then have "u_room user \<in> dom (rooms s)" by auto
    then show ?thesis
      using assms Some \<open>users s socket = Some user\<close>
      by (auto simp add: handleDisconnect_def keysAgree_def Let_def)
  qed
qed

lemma handleDisconnect_tracked:
  assumes "membersTracked s gone"
  shows "membersTracked (tables (handleDisconnect socket s)) (insert socket gone)"
  unfolding membersTracked_def
proof (intro allI impI, elim conjE)
  fix v u
  let ?s' = "tables (handleDisconnect socket s)"
  assume u: "users ?s' v = Some u" and v: "v \<notin> insert socket gone"
  from v have vs: "v \<noteq> socket" and vg: "v \<notin> gone" by auto
  have "users s v = Some u"
    using u vs by (auto simp add: handleDisconnect_def Let_def split: option.splits if_splits)
  from tracked_room [OF assms this vg]
  obtain m where m: "rooms s (u_room u) = Some m" "v \<in> m" by blast
  show "\<exists>m. rooms ?s' (u_room u) = Some m \<and> v \<in> m"
    using m vs by (auto simp add: handleDisconnect_def Let_def split: option.splits)
qed

lemma createRoom_keys: "keysAgree s \<Longrightarrow> keysAgree (snd (createRoom roomId s))"
  unfolding keysAgree_pointwise by (simp add: createRoom_def)

lemma createRoom_tracked:
  assumes "membersTracked s gone" "rooms s roomId = None"
  shows "membersTracked (snd (createRoom roomId s)) gone"
  unfolding membersTracked_def
proof (intro allI impI, elim conjE)
  fix v u
  assume "users (snd (createRoom roomId s)) v = Some u" "v \<notin> gone"
  then have "users s v = Some u" by (simp add: createRoom_def)
  from tracked_room [OF assms(1) this \<open>v \<notin> gone\<close>]
  obtain m where m: "rooms s (u_room u) = Some m" "v \<in> m" by blast
  with assms(2) have "u_room u \<noteq> roomId" by auto
  with m show "\<exists>m. rooms (snd (createRoom roomId s)) (u_room u) = Some m \<and> v \<in> m"
    by (simp add: createRoom_def)
qed

subsection \<open>Every reachable service\<close>

lemma dispatch_preserves:
  assumes "keysAgree s" "membersTracked s gone" "admissible ev s gone"
  shows "keysAgree (tables (dispatch ev s))
       \<and> membersTracked (tables (dispatch ev s)) (goneAfter ev gone)"
proof (cases ev)
  case (Join socket username room)
  then show ?thesis using assms by (simp add: handleJoin_keys handleJoin_tracked)
next
  case (CodeChanged socket change now)
  then show ?thesis using assms by (simp add: handleCodeChange_keys handleCodeChange_tracked)
next
  case (SendMessage socket msg now)
  then show ?thesis using assms by (simp add: handleMessage_keys handleMessage_tracked)
next
  case (CursorUpdate socket pos)
  then show ?thesis using assms by (simp add: handleCursorUpdate_same)
next
  case (Disconnect socket)
  then show ?thesis using assms by (simp add: handleDisconnect_keys handleDisconnect_tracked)
next
  case (CreateRoom roomId)
  then show ?thesis using assms by (simp add: createRoom_keys createRoom_tracked)
qed

lemma run_preserves:
  "run evs (s, gone) = Some (s', gone') \<Longrightarrow> keysAgree s \<Longrightarrow> membersTracked s gone \<Longrightarrow>
   keysAgree s' \<and> membersTracked s' gone'"
proof (induction evs arbitrary: s gone)
  case Nil
  then show ?case by simp
next
  case (Cons ev evs)
  from Cons.prems(1) have adm: "admissible ev s gone"
    and r: "run evs (tables (dispatch ev s), goneAfter ev gone) = Some (s', gone')"
    by (auto split: if_splits)
  from dispatch_preserves [OF Cons.prems(2,3) adm] Cons.IH [OF r]
  show ?case by blast
qed

lemma initial_inv: "keysAgree initial \<and> membersTracked initial {}"
  by (simp add: keysAgree_def membersTracked_def initial_def)

text \<open>
  C10: after any list of events played from the empty service, the membership table,
  the code-change history and the chat history have exactly the same rooms as keys.
\<close>

theorem room_tables_share_keys:
  "run evs (initial, {}) = Some (s, gone) \<Longrightarrow>
   dom (rooms s) = dom (roomHistory s) \<and> dom (roomHistory s) = dom (roomMessages s)"
  using run_preserves [of evs initial "{}" s gone] initial_inv
  by (simp add: keysAgree_def)

theorem room_tables_share_keys_witness:
  "(case run exampleEvents (initial, {}) of
      None \<Rightarrow> False
    | Some (s, gone) \<Rightarrow>
        gone = {''sockA''}
        \<and> dom (rooms s) = {''r1'', ''7c9e6679-7425-40de-944b-e07fc1f90ae7''}
        \<and> dom (rooms s) = dom (roomHistory s) \<and> dom (roomHistory s) = dom (roomMessages s))"
proof -
  have "run exampleEvents (initial, {}) \<noteq> None"
    by (simp add: exampleEvents_def service_defs)
  then obtain s gone where r: "run exampleEvents (initial, {}) = Some (s, gone)"
    by auto
  have "snd (the (run exampleEvents (initial, {}))) = {''sockA''}"
    by (simp add: exampleEvents_def service_defs)
  then have g: "gone = {''sockA''}" by (simp add: r)
  have "dom (rooms (fst (the (run exampleEvents (initial, {})))))
          = {''r1'', ''7c9e6679-7425-40de-944b-e07fc1f90ae7''}"
    by (auto simp add: exampleEvents_def service_defs)
  then have d: "dom (rooms s) = {''r1'', ''7c9e6679-7425-40de-944b-e07fc1f90ae7''}"
    by (simp add: r)
  from room_tables_share_keys [OF r] g d show ?thesis by (simp add: r)
qed

text \<open>
  The two rules of \<open>run\<close> carry weight. If \<^verbatim>\<open>createRoom\<close> is handed the name of a room in use,
  it empties that room's member set; the room is then deleted when the next member
  leaves, and a change from a user still registered for it brings the key back in the
  history alone.
\<close>

lemma colliding_identifier_splits_keys:
  "run collidingEvents (initial, {}) = None
   \<and> dom (rooms (play collidingEvents initial)) = {}
   \<and> dom (roomHistory (play collidingEvents initial)) = {''r1''}"
  by (simp add: collidingEvents_def service_defs)

text \<open>
  Likewise, a socket heard from after its \<^verbatim>\<open>disconnect\<close> can bring back the key of a
  deleted room.
\<close>

lemma late_socket_splits_keys:
  "run lateEvents (initial, {}) = None
   \<and> dom (rooms (play lateEvents initial)) = {}
   \<and> dom (roomHistory (play lateEvents initial)) = {''r1''}"
  by (simp add: lateEvents_def service_defs)

end
